theory Spec2Isabelle
  imports Complex_Main "HOL-Library.Word" "HOL-Library.Log_Nat"
begin

section \<open>The Go runtime, as far as azure\_monitor.go uses it\<close>

text \<open>
  A Go function either returns or panics.  The two run-time panics that the code of
  \<^verbatim>\<open>pkg/scalers/azure_monitor.go\<close> can raise are the dereference of a nil pointer and an
  index outside a slice.  Error values are ordinary return values in Go, so a function
  declared \<^verbatim>\<open>(T, error)\<close> returns a pair whose second component is \<open>None\<close> for \<^verbatim>\<open>nil\<close>.
\<close>

datatype panic = NilDereference | IndexOutOfRange

datatype 'a go = Panics panic | Returns 'a

text \<open>
  A slice value is either \<^verbatim>\<open>nil\<close> or holds elements; an empty slice that is not
  \<^verbatim>\<open>nil\<close> has length 0 as well, and \<^verbatim>\<open>s == nil\<close> tells the two apart.
\<close>

datatype 'a slice = NilSlice | Slice "'a list"

fun elems :: "'a slice \<Rightarrow> 'a list" where
  "elems NilSlice = []"
| "elems (Slice xs) = xs"

definition len :: "'a slice \<Rightarrow> int" where
  "len s = int (length (elems s))"

text \<open>\<^verbatim>\<open>s[i]\<close>: checked by the runtime.\<close>

definition index :: "'a slice \<Rightarrow> int \<Rightarrow> 'a go" where
  "index s i = (if 0 \<le> i \<and> i < len s then Returns (elems s ! nat i) else Panics IndexOutOfRange)"

text \<open>\<^verbatim>\<open>*p\<close>: a pointer is \<open>None\<close> when nil.\<close>

definition deref :: "'a option \<Rightarrow> 'a go" where
  "deref p = (case p of None \<Rightarrow> Panics NilDereference | Some v \<Rightarrow> Returns v)"

subsection \<open>Package strings\<close>

text \<open>
  \<^verbatim>\<open>strings.Split(s, sep)\<close> for a separator of one byte, which is how the file calls it
  (\<^verbatim>\<open>"/"\<close> and \<^verbatim>\<open>":"\<close>): the substrings between the separators, in order.  The result
  always has at least one element; splitting the empty string gives one empty string.
  The scan keeps the bytes of the segment it is in, last byte first, in \<open>cur\<close>.
\<close>

fun split_from :: "string \<Rightarrow> char \<Rightarrow> string \<Rightarrow> string list" where
  "split_from [] sep cur = [rev cur]"
| "split_from (c # cs) sep cur =
     (if c = sep then rev cur # split_from cs sep [] else split_from cs sep (c # cur))"

definition strings_Split :: "string \<Rightarrow> char \<Rightarrow> string list" where
  "strings_Split s sep = split_from s sep []"

text \<open>
  \<^verbatim>\<open>strings.EqualFold\<close> compares under Unicode simple case folding.  Every call in the
  file has one of the ASCII literals Average, Total, Maximum, Minimum, Count as its first
  argument; none of their letters has a fold partner outside ASCII (only k and s do), so
  against them the comparison is byte-wise equality up to the case of ASCII letters.
\<close>

definition ascii_lower :: "char \<Rightarrow> char" where
  "ascii_lower c =
     (if of_char c \<ge> (65::nat) \<and> of_char c \<le> (90::nat) then char_of (of_char c + (32::nat)) else c)"

definition strings_EqualFold :: "string \<Rightarrow> string \<Rightarrow> bool" where
  "strings_EqualFold s t = (map ascii_lower s = map ascii_lower t)"

subsection \<open>Error values\<close>

text \<open>
  The file builds its errors with \<^verbatim>\<open>fmt.Errorf(format, args...)\<close>; an error is kept as
  the format string of the call that made it together with its arguments, in order, so
  that the call site and what the message names can both be read off.  An argument is a
  string (\<open>S\<close>), a string passed through \<^verbatim>\<open>strings.ToTitle\<close> (\<open>Title\<close>, the Unicode
  title-case mapping left unapplied), an error or nil printed with \<^verbatim>\<open>%v\<close> (\<open>V\<close>), or
  the text \<^verbatim>\<open>err.Error()\<close> of an error (\<open>ErrorText\<close>).
  \<open>NumError\<close> is \<^verbatim>\<open>*strconv.NumError{Func, Num, Err}\<close>.
\<close>

datatype num_err = ErrSyntax | ErrRange

datatype go_error =
    Errorf string "fmt_arg list"
  | NumError string string num_err
and fmt_arg =
    S string
  | Title string
  | V "go_error option"
  | ErrorText go_error

subsection \<open>Package strconv\<close>

definition is_digit :: "char \<Rightarrow> bool" where
  "is_digit c = ((48::nat) \<le> of_char c \<and> of_char c \<le> (57::nat))"

definition digit_val :: "char \<Rightarrow> int" where
  "digit_val c = int (of_char c) - 48"

text \<open>
  The digit loop of \<^verbatim>\<open>strconv.ParseUint(s, 10, 64)\<close>: a byte that is no decimal digit is a
  syntax error; a value past \<open>2\<^sup>6\<^sup>4 - 1\<close> is a range error, reported where it occurs.
\<close>

fun parse_uint :: "string \<Rightarrow> int \<Rightarrow> int \<times> num_err option" where
  "parse_uint [] n = (n, None)"
| "parse_uint (c # cs) n =
     (if \<not> is_digit c then (0, Some ErrSyntax)
      else if n * 10 + digit_val c \<ge> 2 ^ 64 then (2 ^ 64 - 1, Some ErrRange)
      else parse_uint cs (n * 10 + digit_val c))"

text \<open>
  \<^verbatim>\<open>strconv.Atoi\<close> where \<^verbatim>\<open>int\<close> has 64 bits: an optional sign, then decimal digits; the
  value must lie in \<open>[-2\<^sup>6\<^sup>3, 2\<^sup>6\<^sup>3 - 1]\<close>.
\<close>

definition strconv_Atoi :: "string \<Rightarrow> int \<times> go_error option" where
  "strconv_Atoi s =
     (if s = [] then (0, Some (NumError ''Atoi'' s ErrSyntax))
      else
        let neg = (hd s = CHR ''-'');
            body = (if hd s = CHR ''+'' \<or> hd s = CHR ''-'' then tl s else s)
        in if body = [] then (0, Some (NumError ''Atoi'' s ErrSyntax))
           else (case parse_uint body 0 of
                   (un, Some ErrSyntax) \<Rightarrow> (0, Some (NumError ''Atoi'' s ErrSyntax))
                 | (un, _) \<Rightarrow>
                     if \<not> neg \<and> un \<ge> 2 ^ 63 then (2 ^ 63 - 1, Some (NumError ''Atoi'' s ErrRange))
                     else if neg \<and> un > 2 ^ 63 then (- (2 ^ 63), Some (NumError ''Atoi'' s ErrRange))
                     else (if neg then - un else un, None)))"

subsection \<open>Package time\<close>

text \<open>
  An instant is the number of nanoseconds since the Unix epoch.  A \<^verbatim>\<open>time.Duration\<close> is a
  signed 64-bit count of nanoseconds whose arithmetic wraps around.
\<close>

type_synonym instant = int
type_synonym duration = "64 word"

definition Second :: duration where "Second = 1000000000"
definition Minute :: duration where "Minute = 60 * Second"
definition Hour :: duration where "Hour = 60 * Minute"

definition time_Add :: "instant \<Rightarrow> duration \<Rightarrow> instant" where
  "time_Add t d = t + sint d"

text \<open>The proleptic Gregorian date of a day number counted from 1970-01-01.\<close>

definition civil_from_days :: "int \<Rightarrow> int \<times> int \<times> int" where
  "civil_from_days z0 =
     (let z = z0 + 719468;
          era = z div 146097;
          doe = z - era * 146097;
          yoe = (doe - doe div 1460 + doe div 36524 - doe div 146096) div 365;
          doy = doe - (365 * yoe + yoe div 4 - yoe div 100);
          mp = (5 * doy + 2) div 153;
          d = doy - (153 * mp + 2) div 5 + 1;
          m = (if mp < 10 then mp + 3 else mp - 9);
          y = yoe + era * 400 + (if m \<le> 2 then 1 else 0)
      in (y, m, d))"

definition digit_char :: "nat \<Rightarrow> char" where
  "digit_char n = ''0123456789'' ! (n mod 10)"

fun decimal :: "nat \<Rightarrow> string" where
  "decimal n = (if n < 10 then [digit_char n] else decimal (n div 10) @ [digit_char n])"

declare decimal.simps [simp del]

text \<open>\<^verbatim>\<open>appendInt(b, x, width)\<close> of package time: sign, then the digits padded with zeros.\<close>

definition appendInt :: "int \<Rightarrow> nat \<Rightarrow> string" where
  "appendInt x width =
     (let ds = decimal (nat \<bar>x\<bar>)
      in (if x < 0 then ''-'' else []) @ replicate (width - length ds) CHR ''0'' @ ds)"

text \<open>
  \<^verbatim>\<open>t.UTC().Format(time.RFC3339)\<close>: the layout \<^verbatim>\<open>2006-01-02T15:04:05Z07:00\<close> has no
  fraction of a second, and the zone of a UTC time prints as \<^verbatim>\<open>Z\<close>.
\<close>

definition format_RFC3339_UTC :: "instant \<Rightarrow> string" where
  "format_RFC3339_UTC t =
     (let secs = t div 1000000000;
          days = secs div 86400;
          rem = secs mod 86400;
          (y, m, d) = civil_from_days days
      in appendInt y 4 @ ''-'' @ appendInt m 2 @ ''-'' @ appendInt d 2 @ ''T''
         @ appendInt (rem div 3600) 2 @ '':'' @ appendInt (rem mod 3600 div 60) 2 @ '':''
         @ appendInt (rem mod 60) 2 @ ''Z'')"

subsection \<open>Floating point, package math, numeric conversions\<close>

text \<open>
  A \<^verbatim>\<open>float64\<close> is modelled by the real number it denotes.  Not-a-number and the
  infinities are left out: the metric values come from a JSON document, which cannot
  carry them, or from an \<^verbatim>\<open>int64\<close>.

  \<^verbatim>\<open>math.Round\<close> "returns the nearest integer, rounding half away from zero"; its result is
  again a \<^verbatim>\<open>float64\<close>, and it is exact.
\<close>

definition math_Round :: "real \<Rightarrow> real" where
  "math_Round x = (if x < 0 then - of_int \<lfloor>- x + 1 / 2\<rfloor> else of_int \<lfloor>x + 1 / 2\<rfloor>)"

text \<open>
  The conversion \<^verbatim>\<open>int32(f)\<close> discards the fraction.  Where the result does not fit, the
  language leaves the value to the implementation: \<open>unrep\<close> stands for that choice.
\<close>

definition int32_of_float64 :: "(real \<Rightarrow> 32 word) \<Rightarrow> real \<Rightarrow> 32 word" where
  "int32_of_float64 unrep f =
     (let n = (if f < 0 then \<lceil>f\<rceil> else \<lfloor>f\<rfloor>)
      in if - (2 ^ 31) \<le> n \<and> n < 2 ^ 31 then word_of_int n else unrep f)"

text \<open>
  The conversion \<^verbatim>\<open>float64(n)\<close> of an \<^verbatim>\<open>int64\<close>: exact below \<open>2\<^sup>5\<^sup>3\<close> in magnitude, otherwise
  rounded to 53 significant bits, ties to even.
\<close>

definition float64_of_int64 :: "64 word \<Rightarrow> real" where
  "float64_of_int64 w =
     (let n = sint w; a = \<bar>n\<bar>
      in if a < 2 ^ 53 then of_int n
         else
           let e = nat (bitlen a) - 53;
               q = a div 2 ^ e;
               r = a mod 2 ^ e;
               q' = (if 2 * r > 2 ^ e \<or> (2 * r = 2 ^ e \<and> odd q) then q + 1 else q)
           in of_int (sgn n * q' * 2 ^ e))"

section \<open>The data\<close>

text \<open>
  The response types of the Azure SDK package \<^verbatim>\<open>insights\<close>, with the fields the file
  reads.  Every field is a pointer: \<open>None\<close> is nil.  \<open>Count\<close> is an \<^verbatim>\<open>int64\<close>, the
  other four aggregations are \<^verbatim>\<open>float64\<close>.
\<close>

record MetricValue =
  Average :: "real option"
  Minimum :: "real option"
  Maximum :: "real option"
  Total :: "real option"
  Count :: "64 word option"

record TimeSeriesElement =
  Data :: "MetricValue slice option"

record Metric =
  Timeseries :: "TimeSeriesElement slice option"

record Response =
  Value :: "Metric slice option"

text \<open>The constants of type \<^verbatim>\<open>insights.AggregationType\<close>, which are strings.\<close>

definition insights_Average :: string where "insights_Average = ''Average''"
definition insights_Total :: string where "insights_Total = ''Total''"
definition insights_Maximum :: string where "insights_Maximum = ''Maximum''"
definition insights_Minimum :: string where "insights_Minimum = ''Minimum''"
definition insights_Count :: string where "insights_Count = ''Count''"

text \<open>
  The arguments of one call of \<^verbatim>\<open>insights.MetricsClient.List\<close> after the context, and
  the client as what it answers to a call.  The calls made are recorded in a list, oldest
  first, which the functions that reach the client take and return.
\<close>

record ListCall =
  list_resourceURI :: string
  list_timespan :: string
  list_interval :: "string option"
  list_metricnames :: string
  list_aggregation :: string
  list_top :: "32 word option"
  list_orderby :: string
  list_filter :: string
  list_resultType :: string
  list_metricnamespace :: string

type_synonym MetricsClient = "ListCall \<Rightarrow> Response \<times> go_error option"

record azureExternalMetricRequest =
  MetricName :: string
  SubscriptionID :: string
  ResourceName :: string
  ResourceProviderNamespace :: string
  ResourceType :: string
  Aggregation :: string
  Timespan :: string
  Filter :: string
  ResourceGroup :: string

text \<open>
  Modelled from the spec: the struct \<^verbatim>\<open>azureMonitorMetadata\<close> is declared in another file
  of the package; these are the fields the spec lists as consumed (section 6), all
  strings, under the names azure\_monitor.go reads them by (\<open>filter\<close> is \<open>filter'\<close> here).
\<close>

record azureMonitorMetadata =
  resourceURI :: string
  tenantID :: string
  subscriptionID :: string
  resourceGroupName :: string
  name :: string
  filter' :: string
  aggregationInterval :: string
  aggregationType :: string
  clientID :: string
  clientPassword :: string

section \<open>The functions of azure\_monitor.go\<close>

text \<open>
  Each function below follows the Go function of the same name statement by statement.
  A variable of the source whose name is also a field of the metadata
  (\<open>aggregationInterval\<close>, \<open>aggregationType\<close>) carries a prime here.
  The calls to the loggers (\<^verbatim>\<open>klog\<close>, \<^verbatim>\<open>azureMonitorLog\<close>) are left out: they return
  nothing and change nothing that the functions read.

  Sequencing: a panic in the first computation is the panic of the whole.
\<close>

definition go_bind :: "'a go \<Rightarrow> ('a \<Rightarrow> 'b go) \<Rightarrow> 'b go" where
  "go_bind m f = (case m of Panics p \<Rightarrow> Panics p | Returns v \<Rightarrow> f v)"

text \<open>\<^verbatim>\<open>a && b\<close>: the right operand is evaluated only when the left one holds.\<close>

definition and_then :: "bool \<Rightarrow> bool go \<Rightarrow> bool go" where
  "and_then a b = (if a then b else Returns False)"

subsection \<open>formatTimeSpan\<close>

text \<open>
  \<^verbatim>\<open>time.Now()\<close> is read once for the end, once for the default start and, when an
  interval is given, a third time for the start: \<open>now k\<close> is the \<open>k\<close>-th reading of the
  clock within the call, counted from 0.
\<close>

definition formatTimeSpan :: "(nat \<Rightarrow> instant) \<Rightarrow> string \<Rightarrow> (string \<times> go_error option) go" where
  "formatTimeSpan now timeSpan =
     (let endtime = format_RFC3339_UTC (now 0);
          starttime = format_RFC3339_UTC (time_Add (now 1) (- (5 * Minute)))
      in if timeSpan \<noteq> [] then
           (let aggregationInterval' = Slice (strings_Split timeSpan CHR '':'')
            in go_bind (index aggregationInterval' 0) (\<lambda>a0.
                 let (hours, herr) = strconv_Atoi a0
                 in go_bind (index aggregationInterval' 1) (\<lambda>a1.
                      let (minutes, merr) = strconv_Atoi a1
                      in go_bind (index aggregationInterval' 2) (\<lambda>a2.
                           let (seconds, serr) = strconv_Atoi a2
                           in if herr \<noteq> None \<or> merr \<noteq> None \<or> serr \<noteq> None then
                                Returns ([], Some (Errorf ''Errors parsing metricAggregationInterval: %v, %v, %v''
                                                     [V herr, V merr, V serr]))
                              else
                                Returns (format_RFC3339_UTC
                                           (time_Add (now 2)
                                              (- (word_of_int hours * Hour + word_of_int minutes * Minute
                                                  + word_of_int seconds * Second)))
                                         @ ''/'' @ endtime, None)))))
         else Returns (starttime @ ''/'' @ endtime, None))"

subsection \<open>createMetricsRequest\<close>

definition createMetricsRequest ::
  "(nat \<Rightarrow> instant) \<Rightarrow> azureMonitorMetadata \<Rightarrow> (azureExternalMetricRequest option \<times> go_error option) go" where
  "createMetricsRequest now metadata =
     (let resourceInfo = Slice (strings_Split (resourceURI metadata) CHR ''/'')
      in go_bind (index resourceInfo 0) (\<lambda>r0.
         go_bind (index resourceInfo 1) (\<lambda>r1.
         go_bind (index resourceInfo 2) (\<lambda>r2.
         go_bind (formatTimeSpan now (aggregationInterval metadata)) (\<lambda>(timespan, err).
           if err \<noteq> None then Returns (None, err)
           else Returns (Some \<lparr> MetricName = name metadata,
                                 SubscriptionID = subscriptionID metadata,
                                 ResourceName = r2,
                                 ResourceProviderNamespace = r0,
                                 ResourceType = r1,
                                 Aggregation = aggregationType metadata,
                                 Timespan = timespan,
                                 Filter = filter' metadata,
                                 ResourceGroup = resourceGroupName metadata \<rparr>, None))))))"

subsection \<open>validate and metricResourceURI\<close>

definition validate :: "azureExternalMetricRequest \<Rightarrow> go_error option" where
  "validate amr =
     (if MetricName amr = [] then Some (Errorf ''metricName is required'' [])
      else if ResourceGroup amr = [] then Some (Errorf ''resourceGroup is required'' [])
      else if SubscriptionID amr = [] then
        Some (Errorf ''subscriptionID is required. set a default or pass via label selectors'' [])
      else None)"

definition metricResourceURI :: "azureExternalMetricRequest \<Rightarrow> string" where
  "metricResourceURI amr =
     ''/subscriptions/'' @ SubscriptionID amr @ ''/resourceGroups/'' @ ResourceGroup amr
     @ ''/providers/'' @ ResourceProviderNamespace amr @ ''/'' @ ResourceType amr
     @ ''/'' @ ResourceName amr"

subsection \<open>verifyAggregationTypeIsSupported\<close>

text \<open>
  Each condition of the chain reads \<^verbatim>\<open>data[len(data)-1]\<close> only after the mode has matched;
  the branch taken reads it again.
\<close>

definition verifyAggregationTypeIsSupported ::
  "string \<Rightarrow> MetricValue slice \<Rightarrow> (real option \<times> go_error option) go" where
  "verifyAggregationTypeIsSupported aggregationType' data =
     go_bind (and_then (strings_EqualFold insights_Average aggregationType')
                (go_bind (index data (len data - 1)) (\<lambda>d. Returns (Average d \<noteq> None)))) (\<lambda>c1.
     if c1 then go_bind (index data (len data - 1)) (\<lambda>d. Returns (Average d, None))
     else
     go_bind (and_then (strings_EqualFold insights_Total aggregationType')
                (go_bind (index data (len data - 1)) (\<lambda>d. Returns (Total d \<noteq> None)))) (\<lambda>c2.
     if c2 then go_bind (index data (len data - 1)) (\<lambda>d. Returns (Total d, None))
     else
     go_bind (and_then (strings_EqualFold insights_Maximum aggregationType')
                (go_bind (index data (len data - 1)) (\<lambda>d. Returns (Maximum d \<noteq> None)))) (\<lambda>c3.
     if c3 then go_bind (index data (len data - 1)) (\<lambda>d. Returns (Maximum d, None))
     else
     go_bind (and_then (strings_EqualFold insights_Minimum aggregationType')
                (go_bind (index data (len data - 1)) (\<lambda>d. Returns (Minimum d \<noteq> None)))) (\<lambda>c4.
     if c4 then go_bind (index data (len data - 1)) (\<lambda>d. Returns (Minimum d, None))
     else
     go_bind (and_then (strings_EqualFold insights_Count aggregationType')
                (go_bind (index data (len data - 1)) (\<lambda>d. Returns (Count d \<noteq> None)))) (\<lambda>c5.
     if c5 then
       go_bind (index data (len data - 1)) (\<lambda>d.
       go_bind (deref (Count d)) (\<lambda>c. Returns (Some (float64_of_int64 c), None)))
     else Returns (None, Some (Errorf ''Unsupported aggregation type %s'' [Title aggregationType'])))))))"

subsection \<open>extractValue\<close>

definition extractValue :: "azureExternalMetricRequest \<Rightarrow> Response \<Rightarrow> (real \<times> go_error option) go" where
  "extractValue azMetricRequest metricResult =
     go_bind (deref (Value metricResult)) (\<lambda>metricVals.
     if len metricVals = 0 then
       Returns (- 1, Some (Errorf ''Got an empty response for metric %s/%s and aggregate type %s''
                             [S (ResourceProviderNamespace azMetricRequest), S (MetricName azMetricRequest),
                              Title (Aggregation azMetricRequest)]))
     else
     go_bind (index metricVals 0) (\<lambda>m0.
     go_bind (deref (Timeseries m0)) (\<lambda>timeseries.
     if timeseries = NilSlice then
       Returns (- 1, Some (Errorf ''Got metric result for %s/%s and aggregate type %s without timeseries''
                             [S (ResourceProviderNamespace azMetricRequest), S (MetricName azMetricRequest),
                              Title (Aggregation azMetricRequest)]))
     else
     go_bind (index timeseries 0) (\<lambda>t0.
     go_bind (deref (Data t0)) (\<lambda>data.
     if data = NilSlice then
       Returns (- 1, Some (Errorf ''Got metric result for %s/%s and aggregate type %s without any metric values''
                             [S (ResourceProviderNamespace azMetricRequest), S (MetricName azMetricRequest),
                              Title (Aggregation azMetricRequest)]))
     else
     go_bind (verifyAggregationTypeIsSupported (Aggregation azMetricRequest) data) (\<lambda>(valuePtr, err).
     if err \<noteq> None then
       Returns (- 1, Some (Errorf ''Unable to get value for metric %s/%s with aggregation %s. No value returned by Azure Monitor''
                             [S (ResourceProviderNamespace azMetricRequest), S (MetricName azMetricRequest),
                              S (Aggregation azMetricRequest)]))
     else go_bind (deref valuePtr) (\<lambda>v. Returns (v, None))))))))"

subsection \<open>getAzureMetric, executeRequest, GetAzureMetricValue\<close>

definition getAzureMetric ::
  "MetricsClient \<Rightarrow> azureExternalMetricRequest \<Rightarrow> ListCall list
     \<Rightarrow> (real \<times> go_error option) go \<times> ListCall list" where
  "getAzureMetric client azMetricRequest calls =
     (case validate azMetricRequest of
        Some err \<Rightarrow> (Returns (- 1, Some err), calls)
      | None \<Rightarrow>
          let call = \<lparr> list_resourceURI = metricResourceURI azMetricRequest,
                       list_timespan = Timespan azMetricRequest,
                       list_interval = None,
                       list_metricnames = MetricName azMetricRequest,
                       list_aggregation = Aggregation azMetricRequest,
                       list_top = None,
                       list_orderby = [],
                       list_filter = Filter azMetricRequest,
                       list_resultType = [],
                       list_metricnamespace = [] \<rparr>;
              (metricResult, err) = client call
          in if err \<noteq> None then (Returns (- 1, err), calls @ [call])
             else (extractValue azMetricRequest metricResult, calls @ [call]))"

definition executeRequest ::
  "(real \<Rightarrow> 32 word) \<Rightarrow> MetricsClient \<Rightarrow> azureExternalMetricRequest option \<Rightarrow> ListCall list
     \<Rightarrow> (32 word \<times> go_error option) go \<times> ListCall list" where
  "executeRequest unrep client request calls =
     (case deref request of
        Panics p \<Rightarrow> (Panics p, calls)
      | Returns req \<Rightarrow>
          (case getAzureMetric client req calls of
             (Panics p, calls') \<Rightarrow> (Panics p, calls')
           | (Returns (metricResponse, Some err), calls') \<Rightarrow>
               (Returns (- 1, Some (Errorf ''Error getting azure monitor metric %s: %s''
                                      [S (MetricName req), ErrorText err])), calls')
           | (Returns (metricResponse, None), calls') \<Rightarrow>
               (Returns (int32_of_float64 unrep (math_Round metricResponse), None), calls')))"

text \<open>
  \<open>createMetricsClient\<close> builds the SDK client from the subscription and the credentials
  of the metadata; it is the boundary to the monitoring service and is a parameter here.
\<close>

definition GetAzureMetricValue ::
  "(real \<Rightarrow> 32 word) \<Rightarrow> (azureMonitorMetadata \<Rightarrow> MetricsClient) \<Rightarrow> (nat \<Rightarrow> instant)
     \<Rightarrow> azureMonitorMetadata \<Rightarrow> ListCall list \<Rightarrow> (32 word \<times> go_error option) go \<times> ListCall list" where
  "GetAzureMetricValue unrep createMetricsClient now metricMetadata calls =
     (let client = createMetricsClient metricMetadata
      in case createMetricsRequest now metricMetadata of
           Panics p \<Rightarrow> (Panics p, calls)
         | Returns (requestPtr, Some err) \<Rightarrow> (Returns (- 1, Some err), calls)
         | Returns (requestPtr, None) \<Rightarrow> executeRequest unrep client requestPtr calls)"

section \<open>Sample inputs\<close>

text \<open>
  Concrete inputs at which the theorems below are evaluated: the configuration and the
  response of the end-to-end example of the spec (section 8), and a clock that stands at
  2027-01-15T08:00:00Z and advances by a microsecond with each reading.
\<close>

definition sample_metadata :: azureMonitorMetadata where
  "sample_metadata =
     \<lparr> resourceURI = ''Microsoft.Storage/queueServices/q1'',
       tenantID = ''t1'',
       subscriptionID = ''s1'',
       resourceGroupName = ''g1'',
       name = ''Length'',
       filter' = [],
       aggregationInterval = [],
       aggregationType = ''Average'',
       clientID = ''id'',
       clientPassword = ''secret'' \<rparr>"

definition sample_clock :: "nat \<Rightarrow> instant" where
  "sample_clock k = 1800000000000000000 + 1000 * int k"

definition sample_request :: azureExternalMetricRequest where
  "sample_request =
     \<lparr> MetricName = ''Length'',
       SubscriptionID = ''s1'',
       ResourceName = ''q1'',
       ResourceProviderNamespace = ''Microsoft.Storage'',
       ResourceType = ''queueServices'',
       Aggregation = ''Average'',
       Timespan = ''2027-01-15T07:55:00Z/2027-01-15T08:00:00Z'',
       Filter = [],
       ResourceGroup = ''g1'' \<rparr>"

definition average_point :: "real \<Rightarrow> MetricValue" where
  "average_point v = \<lparr> Average = Some v, Minimum = None, Maximum = None, Total = None, Count = None \<rparr>"

definition count_point :: "64 word \<Rightarrow> MetricValue" where
  "count_point c = \<lparr> Average = None, Minimum = None, Maximum = None, Total = None, Count = Some c \<rparr>"

definition response_of :: "MetricValue slice option \<Rightarrow> Response" where
  "response_of points =
     \<lparr> Value = Some (Slice [\<lparr> Timeseries = Some (Slice [\<lparr> Data = points \<rparr>]) \<rparr>]) \<rparr>"

definition sample_client :: "real \<Rightarrow> azureMonitorMetadata \<Rightarrow> MetricsClient" where
  "sample_client v metadata call = (response_of (Some (Slice [average_point 1, average_point v])), None)"

definition failing_client :: "azureMonitorMetadata \<Rightarrow> MetricsClient" where
  "failing_client metadata call = (\<lparr> Value = None \<rparr>, Some (Errorf ''connection refused'' []))"

definition sample_call :: ListCall where
  "sample_call =
     \<lparr> list_resourceURI =
         ''/subscriptions/s1/resourceGroups/g1/providers/Microsoft.Storage/queueServices/q1'',
       list_timespan = ''2027-01-15T07:55:00Z/2027-01-15T08:00:00Z'',
       list_interval = None,
       list_metricnames = ''Length'',
       list_aggregation = ''Average'',
       list_top = None,
       list_orderby = [],
       list_filter = [],
       list_resultType = [],
       list_metricnamespace = [] \<rparr>"

section \<open>The selection rule of the spec\<close>

text \<open>
  Section 4.6 of the spec, step 5, in its own words: the requested mode is matched,
  ignoring case, against the five modes; Average, Total, Maximum and Minimum select the
  field of that name, Count selects the integer field converted to floating point; any
  other mode selects nothing.  The source's chain of conditions is compared with this.
\<close>

definition spec_select :: "string \<Rightarrow> MetricValue \<Rightarrow> real option" where
  "spec_select mode point =
     (let m = map ascii_lower mode
      in if m = ''average'' then Average point
         else if m = ''total'' then Total point
         else if m = ''maximum'' then Maximum point
         else if m = ''minimum'' then Minimum point
         else if m = ''count'' then map_option float64_of_int64 (Count point)
         else None)"

section \<open>Properties\<close>

subsection \<open>Slices and strings.Split\<close>

lemma split_from_nonempty: "split_from s sep cur \<noteq> []"
  by (induction s arbitrary: cur) auto

lemma strings_Split_nonempty: "strings_Split s sep \<noteq> []"
  by (simp add: strings_Split_def split_from_nonempty)

lemma split_from_no_sep: "sep \<notin> set a \<Longrightarrow> split_from a sep cur = [rev cur @ a]"
  by (induction a arbitrary: cur) auto

lemma split_from_segment:
  "sep \<notin> set a \<Longrightarrow>
     split_from (a @ sep # rest) sep cur = (rev cur @ a) # split_from rest sep []"
  by (induction a arbitrary: cur) auto

lemma strings_Split_no_sep: "sep \<notin> set a \<Longrightarrow> strings_Split a sep = [a]"
  by (simp add: strings_Split_def split_from_no_sep)

lemma strings_Split_segment:
  "sep \<notin> set a \<Longrightarrow> strings_Split (a @ sep # rest) sep = a # strings_Split rest sep"
  by (simp add: strings_Split_def split_from_segment)

lemma index_Slice_Cons0: "index (Slice (x # xs)) 0 = Returns x"
  by (simp add: index_def len_def)

lemma index_Slice_Cons1: "index (Slice (x # y # xs)) 1 = Returns y"
  by (simp add: index_def len_def)

lemma index_Slice_Cons2: "index (Slice (x # y # z # xs)) 2 = Returns z"
  by (simp add: index_def len_def)

lemma index_out_of_range:
  "int (length xs) \<le> i \<Longrightarrow> index (Slice xs) i = Panics IndexOutOfRange"
  by (simp add: index_def len_def)

lemma index_last:
  assumes "xs \<noteq> []"
  shows "index (Slice xs) (len (Slice xs) - 1) = Returns (last xs)"
proof -
  have "nat (int (length xs) - 1) = length xs - 1" by simp
  with assms show ?thesis
    by (simp add: index_def len_def last_conv_nth)
qed

subsection \<open>The timespan at the sample clock\<close>

lemma formatTimeSpan_empty:
  "formatTimeSpan now [] =
     Returns (format_RFC3339_UTC (now 1 - 300000000000) @ ''/'' @ format_RFC3339_UTC (now 0), None)"
  by (simp add: formatTimeSpan_def time_Add_def Minute_def Second_def)

lemma format_sample_end: "format_RFC3339_UTC (sample_clock 0) = ''2027-01-15T08:00:00Z''"
  by code_simp

lemma format_sample_default_start:
  "format_RFC3339_UTC (sample_clock (Suc 0) - 300000000000) = ''2027-01-15T07:55:00Z''"
  by code_simp

subsection \<open>Decomposition of the resource identifier\<close>

text \<open>
  When the split has at least three elements, the three reads succeed and the request is
  built from the first three; what is left for \<open>createMetricsRequest\<close> to do is the
  timespan.
\<close>

lemma createMetricsRequest_at_least_three:
  assumes "strings_Split (resourceURI metadata) CHR ''/'' = r0 # r1 # r2 # others"
  shows "createMetricsRequest now metadata =
           go_bind (formatTimeSpan now (aggregationInterval metadata)) (\<lambda>(timespan, err).
             if err \<noteq> None then Returns (None, err)
             else Returns (Some \<lparr> MetricName = name metadata,
                                   SubscriptionID = subscriptionID metadata,
                                   ResourceName = r2,
                                   ResourceProviderNamespace = r0,
                                   ResourceType = r1,
                                   Aggregation = aggregationType metadata,
                                   Timespan = timespan,
                                   Filter = filter' metadata,
                                   ResourceGroup = resourceGroupName metadata \<rparr>, None))"
  using assms
  by (simp add: createMetricsRequest_def index_Slice_Cons0 index_Slice_Cons1 index_Slice_Cons2
      go_bind_def)

text \<open>
  An identifier \<open>ns/type/name\<close> with exactly three segments: the request carries exactly
  \<open>ns\<close>, \<open>type\<close> and \<open>name\<close>.  This part of the decomposition property of the spec holds of the code.
\<close>

lemma createMetricsRequest_three_segments:
  assumes "CHR ''/'' \<notin> set ns" and "CHR ''/'' \<notin> set ty" and "CHR ''/'' \<notin> set nm"
    and "resourceURI metadata = ns @ ''/'' @ ty @ ''/'' @ nm"
  shows "createMetricsRequest now metadata =
           go_bind (formatTimeSpan now (aggregationInterval metadata)) (\<lambda>(timespan, err).
             if err \<noteq> None then Returns (None, err)
             else Returns (Some \<lparr> MetricName = name metadata,
                                   SubscriptionID = subscriptionID metadata,
                                   ResourceName = nm,
                                   ResourceProviderNamespace = ns,
                                   ResourceType = ty,
                                   Aggregation = aggregationType metadata,
                                   Timespan = timespan,
                                   Filter = filter' metadata,
                                   ResourceGroup = resourceGroupName metadata \<rparr>, None))"
proof -
  have "strings_Split (resourceURI metadata) CHR ''/'' = ns # ty # nm # []"
    using assms by (simp add: strings_Split_segment strings_Split_no_sep)
  then show ?thesis by (rule createMetricsRequest_at_least_three)
qed

text \<open>
  Claim C10.  For every resource identifier with more than three segments, that is
  \<open>ns/type/name/rest\<close> where \<open>ns\<close>, \<open>type\<close> and \<open>name\<close> hold no slash and \<open>rest\<close> is any
  string, the decomposition does not fail: the request is built with \<open>ns\<close>, \<open>type\<close> and
  \<open>name\<close> as namespace, type and name, and \<open>rest\<close> appears nowhere in the outcome.  The
  only way left for \<open>createMetricsRequest\<close> not to return a request is the timespan.
\<close>

theorem createMetricsRequest_ignores_extra_segments:
  assumes "CHR ''/'' \<notin> set ns" and "CHR ''/'' \<notin> set ty" and "CHR ''/'' \<notin> set nm"
    and "resourceURI metadata = ns @ ''/'' @ ty @ ''/'' @ nm @ ''/'' @ rest"
  shows "createMetricsRequest now metadata =
           go_bind (formatTimeSpan now (aggregationInterval metadata)) (\<lambda>(timespan, err).
             if err \<noteq> None then Returns (None, err)
             else Returns (Some \<lparr> MetricName = name metadata,
                                   SubscriptionID = subscriptionID metadata,
                                   ResourceName = nm,
                                   ResourceProviderNamespace = ns,
                                   ResourceType = ty,
                                   Aggregation = aggregationType metadata,
                                   Timespan = timespan,
                                   Filter = filter' metadata,
                                   ResourceGroup = resourceGroupName metadata \<rparr>, None))"
proof -
  have "strings_Split (resourceURI metadata) CHR ''/'' = ns # ty # nm # strings_Split rest CHR ''/''"
    using assms by (simp add: strings_Split_segment)
  then show ?thesis by (rule createMetricsRequest_at_least_three)
qed

theorem createMetricsRequest_ignores_extra_segments_witness:
  "createMetricsRequest sample_clock
     (sample_metadata\<lparr>resourceURI := ''Microsoft.Storage/queueServices/q1/messages/7''\<rparr>)
   = Returns (Some sample_request, None)"
  using createMetricsRequest_ignores_extra_segments
    [of "''Microsoft.Storage''" "''queueServices''" "''q1''"
      "sample_metadata\<lparr>resourceURI := ''Microsoft.Storage/queueServices/q1/messages/7''\<rparr>"
      "''messages/7''" sample_clock]
  by (simp add: sample_metadata_def sample_request_def formatTimeSpan_empty go_bind_def
      format_sample_end format_sample_default_start)

text \<open>
  Claim C2, where the code departs from it.  For every resource identifier with fewer
  than three segments \<open>createMetricsRequest\<close> returns nothing at all: the read of the
  missing segment panics with an index out of range.  No error value is produced.
\<close>

theorem createMetricsRequest_short_identifier_panics:
  assumes "length (strings_Split (resourceURI metadata) CHR ''/'') < 3"
  shows "createMetricsRequest now metadata = Panics IndexOutOfRange"
proof -
  obtain r0 rs where s: "strings_Split (resourceURI metadata) CHR ''/'' = r0 # rs"
    using strings_Split_nonempty by (cases "strings_Split (resourceURI metadata) CHR ''/''") auto
  show ?thesis
  proof (cases rs)
    case Nil
    then show ?thesis using s
      by (simp add: createMetricsRequest_def index_Slice_Cons0 index_out_of_range go_bind_def)
  next
    case (Cons r1 rs')
    with assms s have "rs' = []" by simp
    then show ?thesis using s Cons
      by (simp add: createMetricsRequest_def index_Slice_Cons0 index_Slice_Cons1
          index_out_of_range go_bind_def)
  qed
qed

theorem createMetricsRequest_short_identifier_panics_witness:
  "createMetricsRequest sample_clock
     (sample_metadata\<lparr>resourceURI := ''Microsoft.Storage/queueServices''\<rparr>)
   = Panics IndexOutOfRange"
proof -
  have "length (strings_Split
          (resourceURI (sample_metadata\<lparr>resourceURI := ''Microsoft.Storage/queueServices''\<rparr>))
          CHR ''/'') < 3"
    by (simp add: strings_Split_def)
  then show ?thesis by (rule createMetricsRequest_short_identifier_panics)
qed

subsection \<open>The default window\<close>

lemma format_RFC3339_UTC_Z: "\<exists>stamp. format_RFC3339_UTC t = stamp @ ''Z''"
  by (simp add: format_RFC3339_UTC_def Let_def split: prod.splits)

text \<open>
  Claim C7.  With the empty interval (a Go string cannot be absent) the timespan is
  \<open>start/end\<close>, both printed by the UTC formatter of RFC 3339 and hence ending in the
  designator Z; the end is the first reading of the clock and the start lies five
  minutes before the second reading.  The length of the window is five minutes less the
  time \<open>skew\<close> that passed between the two readings.
\<close>

theorem default_window_is_five_minutes:
  assumes "now 1 = now 0 + skew"
  shows "\<exists>start end.
           formatTimeSpan now [] =
             Returns (format_RFC3339_UTC start @ ''/'' @ format_RFC3339_UTC end, None)
           \<and> end = now 0
           \<and> end - start = 5 * 60 * 1000000000 - skew
           \<and> (\<exists>s e. format_RFC3339_UTC start = s @ ''Z'' \<and> format_RFC3339_UTC end = e @ ''Z'')"
proof -
  obtain s where s: "format_RFC3339_UTC (now 1 - 300000000000) = s @ ''Z''"
    using format_RFC3339_UTC_Z by blast
  obtain e where e: "format_RFC3339_UTC (now 0) = e @ ''Z''"
    using format_RFC3339_UTC_Z by blast
  have d: "now 0 - (now 1 - 300000000000) = 5 * 60 * 1000000000 - skew"
    using assms by simp
  show ?thesis
  proof (intro exI conjI)
    show "formatTimeSpan now [] =
            Returns (format_RFC3339_UTC (now 1 - 300000000000) @ ''/'' @ format_RFC3339_UTC (now 0), None)"
      by (rule formatTimeSpan_empty)
    show "now 0 = now 0"
      by (rule refl)
    show "now 0 - (now 1 - 300000000000) = 5 * 60 * 1000000000 - skew"
      by (rule d)
    show "format_RFC3339_UTC (now 1 - 300000000000) = s @ ''Z''"
      by (rule s)
    show "format_RFC3339_UTC (now 0) = e @ ''Z''"
      by (rule e)
  qed
qed

theorem default_window_is_five_minutes_witness:
  "formatTimeSpan sample_clock [] = Returns (''2027-01-15T07:55:00Z/2027-01-15T08:00:00Z'', None)"
proof -
  have "sample_clock 1 = sample_clock 0 + 1000"
    by (simp add: sample_clock_def)
  from default_window_is_five_minutes [OF this] obtain start "end" where w:
    "formatTimeSpan sample_clock [] =
       Returns (format_RFC3339_UTC start @ ''/'' @ format_RFC3339_UTC end, None)"
    "end = sample_clock 0" "end - start = 5 * 60 * 1000000000 - 1000"
    by blast
  from w(2,3) have "start = sample_clock (Suc 0) - 300000000000"
    by (simp add: sample_clock_def)
  with w(1,2) show ?thesis
    by (simp add: format_sample_end format_sample_default_start)
qed

subsection \<open>The window of a given interval\<close>

lemma duration_of_components:
  "word_of_int H * Hour + word_of_int M * Minute + word_of_int S' * Second
     = (word_of_int ((H * 3600 + M * 60 + S') * 1000000000) :: 64 word)"
  by (simp add: Hour_def Minute_def Second_def algebra_simps)

lemma sint_neg_duration:
  assumes "- (2 ^ 63) < D" and "D \<le> 2 ^ 63"
  shows "sint (- (word_of_int D :: 64 word)) = - D"
proof -
  have "sint (word_of_int (- D) :: 64 word) = signed_take_bit (LENGTH(64) - 1) (- D)"
    by (rule sint_sbintrunc')
  also have "\<dots> = - D"
    by (rule signed_take_bit_int_eq_self) (use assms in simp_all)
  finally show ?thesis
    by (simp only: word_of_int_homs(4) [symmetric])
qed

lemma formatTimeSpan_components:
  assumes "strings_Split timeSpan CHR '':'' = h # m # s # rest"
  shows "formatTimeSpan now timeSpan =
           (if snd (strconv_Atoi h) \<noteq> None \<or> snd (strconv_Atoi m) \<noteq> None \<or> snd (strconv_Atoi s) \<noteq> None
            then Returns ([], Some (Errorf ''Errors parsing metricAggregationInterval: %v, %v, %v''
                                      [V (snd (strconv_Atoi h)), V (snd (strconv_Atoi m)),
                                       V (snd (strconv_Atoi s))]))
            else Returns (format_RFC3339_UTC
                            (now 2 + sint (- (word_of_int ((fst (strconv_Atoi h) * 3600
                                                + fst (strconv_Atoi m) * 60
                                                + fst (strconv_Atoi s)) * 1000000000) :: 64 word)))
                          @ ''/'' @ format_RFC3339_UTC (now 0), None))"
proof -
  have "timeSpan \<noteq> []"
    using assms by (auto simp: strings_Split_def)
  then show ?thesis
    using assms
    by (simp add: formatTimeSpan_def Let_def go_bind_def index_Slice_Cons0 index_Slice_Cons1
        index_Slice_Cons2 time_Add_def duration_of_components split: prod.splits)
qed

text \<open>\<open>strconv_Atoi\<close> takes a sign: what parses without one parses with one in front.\<close>

lemma strconv_Atoi_sign:
  assumes "strconv_Atoi ds = (n, None)" and "hd ds \<noteq> CHR ''-''" and "hd ds \<noteq> CHR ''+''"
  shows "strconv_Atoi (CHR ''-'' # ds) = (- n, None)"
    and "strconv_Atoi (CHR ''+'' # ds) = (n, None)"
  using assms
  by (auto simp: strconv_Atoi_def Let_def split: if_splits prod.splits option.splits num_err.splits)

text \<open>
  Claim C5, as the code has it.  Let the first three components of the interval be
  \<open>h\<close>, \<open>m\<close> and \<open>s\<close>.  Each is parsed by \<open>strconv_Atoi\<close>, which takes an optional sign
  before the digits.  When one of them fails to parse, the result is the single error
  whose three arguments are the outcomes for hours, minutes and seconds in this order,
  nil for a component that parsed.  When all three parse, to \<open>H\<close>, \<open>M\<close> and \<open>S\<close>, and the
  negated duration fits 64 bits of nanoseconds, the window runs from the third reading of
  the clock less \<open>H\<cdot>3600 + M\<cdot>60 + S\<close> seconds to the first reading.
\<close>

theorem interval_window:
  assumes "strings_Split timeSpan CHR '':'' = h # m # s # rest"
  shows "(snd (strconv_Atoi h) \<noteq> None \<or> snd (strconv_Atoi m) \<noteq> None \<or> snd (strconv_Atoi s) \<noteq> None \<longrightarrow>
            formatTimeSpan now timeSpan =
              Returns ([], Some (Errorf ''Errors parsing metricAggregationInterval: %v, %v, %v''
                                   [V (snd (strconv_Atoi h)), V (snd (strconv_Atoi m)),
                                    V (snd (strconv_Atoi s))])))
         \<and> (strconv_Atoi h = (H, None) \<and> strconv_Atoi m = (M, None) \<and> strconv_Atoi s = (S', None)
              \<and> - (2 ^ 63) < (H * 3600 + M * 60 + S') * 1000000000
              \<and> (H * 3600 + M * 60 + S') * 1000000000 \<le> 2 ^ 63 \<longrightarrow>
            formatTimeSpan now timeSpan =
              Returns (format_RFC3339_UTC (now 2 - (H * 3600 + M * 60 + S') * 1000000000)
                       @ ''/'' @ format_RFC3339_UTC (now 0), None))"
proof (intro conjI impI)
  assume "snd (strconv_Atoi h) \<noteq> None \<or> snd (strconv_Atoi m) \<noteq> None \<or> snd (strconv_Atoi s) \<noteq> None"
  then show "formatTimeSpan now timeSpan =
               Returns ([], Some (Errorf ''Errors parsing metricAggregationInterval: %v, %v, %v''
                                    [V (snd (strconv_Atoi h)), V (snd (strconv_Atoi m)),
                                     V (snd (strconv_Atoi s))]))"
    unfolding formatTimeSpan_components [OF assms] by simp
next
  assume a: "strconv_Atoi h = (H, None) \<and> strconv_Atoi m = (M, None) \<and> strconv_Atoi s = (S', None)
              \<and> - (2 ^ 63) < (H * 3600 + M * 60 + S') * 1000000000
              \<and> (H * 3600 + M * 60 + S') * 1000000000 \<le> 2 ^ 63"
  define D where "D = (H * 3600 + M * 60 + S') * 1000000000"
  from a have p: "snd (strconv_Atoi h) = None" "snd (strconv_Atoi m) = None"
    "snd (strconv_Atoi s) = None" "fst (strconv_Atoi h) = H" "fst (strconv_Atoi m) = M"
    "fst (strconv_Atoi s) = S'"
    by simp_all
  from a have "- (2 ^ 63) < D" and "D \<le> 2 ^ 63"
    by (simp_all add: D_def)
  then have "sint (- (word_of_int D :: 64 word)) = - D"
    by (rule sint_neg_duration)
  then have e: "now 2 + sint (- (word_of_int D :: 64 word)) = now 2 - D"
    by simp
  have "formatTimeSpan now timeSpan =
          Returns (format_RFC3339_UTC (now 2 + sint (- (word_of_int D :: 64 word)))
                   @ ''/'' @ format_RFC3339_UTC (now 0), None)"
    unfolding formatTimeSpan_components [OF assms] p D_def by simp
  then have "formatTimeSpan now timeSpan =
          Returns (format_RFC3339_UTC (now 2 - D) @ ''/'' @ format_RFC3339_UTC (now 0), None)"
    by (simp only: e)
  then show "formatTimeSpan now timeSpan =
                 Returns (format_RFC3339_UTC (now 2 - (H * 3600 + M * 60 + S') * 1000000000)
                          @ ''/'' @ format_RFC3339_UTC (now 0), None)"
    unfolding D_def .
qed

lemma Atoi_samples:
  "strconv_Atoi ''1'' = (1, None)"
  "strconv_Atoi ''30'' = (30, None)"
  "strconv_Atoi ''0'' = (0, None)"
  "strconv_Atoi ''x'' = (0, Some (NumError ''Atoi'' ''x'' ErrSyntax))"
  "strconv_Atoi ''-1'' = (- 1, None)"
  "strconv_Atoi ''2562048'' = (2562048, None)"
  by code_simp+

theorem interval_window_witness:
  "formatTimeSpan sample_clock ''1:30:0''
     = Returns (''2027-01-15T06:30:00Z/2027-01-15T08:00:00Z'', None)
   \<and> formatTimeSpan sample_clock ''x:0:0''
     = Returns ([], Some (Errorf ''Errors parsing metricAggregationInterval: %v, %v, %v''
                            [V (Some (NumError ''Atoi'' ''x'' ErrSyntax)), V None, V None]))"
proof -
  have 1: "strings_Split ''1:30:0'' CHR '':'' = ''1'' # ''30'' # ''0'' # []"
    and 2: "strings_Split ''x:0:0'' CHR '':'' = ''x'' # ''0'' # ''0'' # []"
    by (simp_all add: strings_Split_def)
  have f: "format_RFC3339_UTC (sample_clock 2 - 5400000000000) = ''2027-01-15T06:30:00Z''"
    by code_simp
  from interval_window [OF 1, of sample_clock 1 30 0, THEN conjunct2]
  have "formatTimeSpan sample_clock ''1:30:0''
          = Returns (''2027-01-15T06:30:00Z/2027-01-15T08:00:00Z'', None)"
    by (simp add: Atoi_samples f format_sample_end)
  moreover from interval_window [OF 2, of sample_clock 0 0 0, THEN conjunct1]
  have "formatTimeSpan sample_clock ''x:0:0''
          = Returns ([], Some (Errorf ''Errors parsing metricAggregationInterval: %v, %v, %v''
                                 [V (Some (NumError ''Atoi'' ''x'' ErrSyntax)), V None, V None]))"
    by (simp add: Atoi_samples)
  ultimately show ?thesis by (rule conjI)
qed

text \<open>
  Claim C5 as the spec words it fails at two inputs.  The hours \<open>-1\<close> are no non-negative
  integer, yet they parse: no error is returned and the window starts an hour after its
  end.  The hours \<open>2562048\<close> parse and are non-negative, but their nanoseconds wrap around
  in 64 bits: the start is in the year 2319 and not, as \<open>now - H\<cdot>3600\<close> seconds would be,
  in 1734.
\<close>

theorem interval_window_counterexample:
  "formatTimeSpan sample_clock ''-1:0:0''
     = Returns (''2027-01-15T09:00:00Z/2027-01-15T08:00:00Z'', None)
   \<and> formatTimeSpan sample_clock ''2562048:0:0''
     = Returns (''2319-04-27T07:34:33Z/2027-01-15T08:00:00Z'', None)
   \<and> format_RFC3339_UTC (sample_clock 2 - (2562048 * 3600 + 0 * 60 + 0) * 1000000000)
     = ''1734-10-06T08:00:00Z''"
  by code_simp

subsection \<open>Validation\<close>

text \<open>
  Claim C6.  \<open>validate\<close> looks at metricName first, then resourceGroup, then
  subscriptionID, and its error is the one message of the first of them that is empty,
  whatever the later fields hold; the subscriptionID message carries the hint.  In
  particular metricName is what is reported when all three are empty.
\<close>

theorem validate_reports_first_empty_field:
  "(MetricName amr = [] \<longrightarrow> validate amr = Some (Errorf ''metricName is required'' []))
   \<and> (MetricName amr \<noteq> [] \<and> ResourceGroup amr = [] \<longrightarrow>
        validate amr = Some (Errorf ''resourceGroup is required'' []))
   \<and> (MetricName amr \<noteq> [] \<and> ResourceGroup amr \<noteq> [] \<and> SubscriptionID amr = [] \<longrightarrow>
        validate amr =
          Some (Errorf ''subscriptionID is required. set a default or pass via label selectors'' []))
   \<and> (MetricName amr \<noteq> [] \<and> ResourceGroup amr \<noteq> [] \<and> SubscriptionID amr \<noteq> [] \<longrightarrow>
        validate amr = None)"
  by (simp add: validate_def)

theorem validate_reports_first_empty_field_witness:
  "validate (sample_request\<lparr>MetricName := [], ResourceGroup := [], SubscriptionID := []\<rparr>)
     = Some (Errorf ''metricName is required'' [])
   \<and> validate (sample_request\<lparr>ResourceGroup := [], SubscriptionID := []\<rparr>)
     = Some (Errorf ''resourceGroup is required'' [])
   \<and> validate (sample_request\<lparr>SubscriptionID := []\<rparr>)
     = Some (Errorf ''subscriptionID is required. set a default or pass via label selectors'' [])
   \<and> validate sample_request = None"
  using validate_reports_first_empty_field
          [of "sample_request\<lparr>MetricName := [], ResourceGroup := [], SubscriptionID := []\<rparr>"]
        validate_reports_first_empty_field
          [of "sample_request\<lparr>ResourceGroup := [], SubscriptionID := []\<rparr>"]
        validate_reports_first_empty_field [of "sample_request\<lparr>SubscriptionID := []\<rparr>"]
        validate_reports_first_empty_field [of sample_request]
  by (simp add: sample_request_def)

lemma validate_Some_iff:
  "(\<exists>err. validate amr = Some err) \<longleftrightarrow>
     MetricName amr = [] \<or> ResourceGroup amr = [] \<or> SubscriptionID amr = []"
  by (simp add: validate_def)

subsection \<open>Selecting the aggregation\<close>

lemma EqualFold_Average: "strings_EqualFold insights_Average m \<longleftrightarrow> map ascii_lower m = ''average''"
proof -
  have "map ascii_lower ''Average'' = ''average''" by code_simp
  then show ?thesis by (auto simp: strings_EqualFold_def insights_Average_def)
qed

lemma EqualFold_Total: "strings_EqualFold insights_Total m \<longleftrightarrow> map ascii_lower m = ''total''"
proof -
  have "map ascii_lower ''Total'' = ''total''" by code_simp
  then show ?thesis by (auto simp: strings_EqualFold_def insights_Total_def)
qed

lemma EqualFold_Maximum: "strings_EqualFold insights_Maximum m \<longleftrightarrow> map ascii_lower m = ''maximum''"
proof -
  have "map ascii_lower ''Maximum'' = ''maximum''" by code_simp
  then show ?thesis by (auto simp: strings_EqualFold_def insights_Maximum_def)
qed

lemma EqualFold_Minimum: "strings_EqualFold insights_Minimum m \<longleftrightarrow> map ascii_lower m = ''minimum''"
proof -
  have "map ascii_lower ''Minimum'' = ''minimum''" by code_simp
  then show ?thesis by (auto simp: strings_EqualFold_def insights_Minimum_def)
qed

lemma EqualFold_Count: "strings_EqualFold insights_Count m \<longleftrightarrow> map ascii_lower m = ''count''"
proof -
  have "map ascii_lower ''Count'' = ''count''" by code_simp
  then show ?thesis by (auto simp: strings_EqualFold_def insights_Count_def)
qed

lemmas EqualFold_modes =
  EqualFold_Average EqualFold_Total EqualFold_Maximum EqualFold_Minimum EqualFold_Count

text \<open>
  On a sequence with at least one point the chain of conditions computes the selection
  rule of the spec at the last point.
\<close>

lemma verifyAggregationTypeIsSupported_last:
  assumes "xs \<noteq> []"
  shows "verifyAggregationTypeIsSupported mode (Slice xs) =
           (case spec_select mode (last xs) of
              Some v \<Rightarrow> Returns (Some v, None)
            | None \<Rightarrow> Returns (None, Some (Errorf ''Unsupported aggregation type %s'' [Title mode])))"
  using assms
  by (auto simp: verifyAggregationTypeIsSupported_def spec_select_def and_then_def go_bind_def
      index_last EqualFold_modes deref_def split: option.splits)

lemma extractValue_last:
  assumes "Value metricResult = Some (Slice (m0 # ms))"
    and "Timeseries m0 = Some (Slice (t0 # ts))"
    and "Data t0 = Some (Slice xs)" and "xs \<noteq> []"
  shows "extractValue req metricResult =
           (case spec_select (Aggregation req) (last xs) of
              Some v \<Rightarrow> Returns (v, None)
            | None \<Rightarrow>
                Returns (- 1, Some (Errorf ''Unable to get value for metric %s/%s with aggregation %s. No value returned by Azure Monitor''
                                     [S (ResourceProviderNamespace req), S (MetricName req),
                                      S (Aggregation req)])))"
  using assms
  by (simp add: extractValue_def go_bind_def deref_def len_def index_Slice_Cons0
      verifyAggregationTypeIsSupported_last split: option.splits)

text \<open>
  Claim C3.  For every data-point sequence that is not empty and every requested mode,
  the outcome is a function of the last point alone: it is the selection rule of the
  spec applied to that point.  The field of the matching mode is returned when present
  (the count converted to floating point); when it is absent, whatever the other fields
  hold, or when the mode is none of the five, \<open>verifyAggregationTypeIsSupported\<close>
  fails with the error that names the requested mode, and \<open>extractValue\<close> replaces it
  by its own error, which names the mode as well.
\<close>

theorem extraction_selects_from_last_point:
  assumes "xs \<noteq> []"
    and "Value metricResult = Some (Slice (m0 # ms))"
    and "Timeseries m0 = Some (Slice (t0 # ts))"
    and "Data t0 = Some (Slice xs)"
  shows "verifyAggregationTypeIsSupported mode (Slice xs) =
           (case spec_select mode (last xs) of
              Some v \<Rightarrow> Returns (Some v, None)
            | None \<Rightarrow> Returns (None, Some (Errorf ''Unsupported aggregation type %s'' [Title mode])))
         \<and> extractValue req metricResult =
           (case spec_select (Aggregation req) (last xs) of
              Some v \<Rightarrow> Returns (v, None)
            | None \<Rightarrow>
                Returns (- 1, Some (Errorf ''Unable to get value for metric %s/%s with aggregation %s. No value returned by Azure Monitor''
                                     [S (ResourceProviderNamespace req), S (MetricName req),
                                      S (Aggregation req)])))"
  using assms verifyAggregationTypeIsSupported_last [of xs mode]
    extractValue_last [of metricResult m0 ms t0 ts xs req]
  by simp

lemma spec_select_samples:
  "spec_select ''Count'' (count_point 7) = Some 7"
  "spec_select ''cOUNT'' (count_point 7) = Some 7"
  "spec_select ''Average'' (count_point 7) = None"
  "spec_select ''Median'' (average_point (63 / 5)) = None"
  "spec_select ''AVERAGE'' (average_point (63 / 5)) = Some (63 / 5)"
  "spec_select ''average'' (average_point (63 / 5)) = Some (63 / 5)"
proof -
  have l: "map ascii_lower ''Count'' = ''count''" "map ascii_lower ''cOUNT'' = ''count''"
    "map ascii_lower ''Average'' = ''average''" "map ascii_lower ''Median'' = ''median''"
    "map ascii_lower ''AVERAGE'' = ''average''" "map ascii_lower ''average'' = ''average''"
    by code_simp+
  show "spec_select ''Count'' (count_point 7) = Some 7"
    "spec_select ''cOUNT'' (count_point 7) = Some 7"
    "spec_select ''Average'' (count_point 7) = None"
    "spec_select ''Median'' (average_point (63 / 5)) = None"
    "spec_select ''AVERAGE'' (average_point (63 / 5)) = Some (63 / 5)"
    "spec_select ''average'' (average_point (63 / 5)) = Some (63 / 5)"
    unfolding spec_select_def l
    by (simp_all add: count_point_def average_point_def float64_of_int64_def)
qed

theorem extraction_selects_from_last_point_witness:
  "verifyAggregationTypeIsSupported ''Count'' (Slice [average_point 3, count_point 7])
     = Returns (Some 7, None)
   \<and> verifyAggregationTypeIsSupported ''cOUNT'' (Slice [average_point 3, count_point 7])
     = Returns (Some 7, None)
   \<and> verifyAggregationTypeIsSupported ''Average'' (Slice [average_point 3, count_point 7])
     = Returns (None, Some (Errorf ''Unsupported aggregation type %s'' [Title ''Average'']))
   \<and> extractValue (sample_request\<lparr>Aggregation := ''AVERAGE''\<rparr>)
        (response_of (Some (Slice [average_point 1, average_point (126 / 10)])))
     = Returns (126 / 10, None)
   \<and> extractValue (sample_request\<lparr>Aggregation := ''average''\<rparr>)
        (response_of (Some (Slice [average_point 1, average_point (126 / 10)])))
     = Returns (126 / 10, None)
   \<and> extractValue (sample_request\<lparr>Aggregation := ''Median''\<rparr>)
        (response_of (Some (Slice [average_point 1, average_point (126 / 10)])))
     = Returns (- 1, Some (Errorf ''Unable to get value for metric %s/%s with aggregation %s. No value returned by Azure Monitor''
                            [S ''Microsoft.Storage'', S ''Length'', S ''Median'']))
   \<and> extractValue sample_request (response_of (Some (Slice [average_point 3, count_point 7])))
     = Returns (- 1, Some (Errorf ''Unable to get value for metric %s/%s with aggregation %s. No value returned by Azure Monitor''
                            [S ''Microsoft.Storage'', S ''Length'', S ''Average'']))"
proof -
  let ?counts = "[average_point 3, count_point 7]"
  let ?averages = "[average_point 1, average_point (126 / 10)]"
  have c: "?counts \<noteq> []" and a: "?averages \<noteq> []" by simp_all
  note t = extraction_selects_from_last_point
  have r: "Value (response_of p) = Some (Slice (\<lparr> Timeseries = Some (Slice [\<lparr> Data = p \<rparr>]) \<rparr> # []))"
    "Timeseries \<lparr> Timeseries = Some (Slice [\<lparr> Data = p \<rparr>]) \<rparr> = Some (Slice (\<lparr> Data = p \<rparr> # []))"
    "Data \<lparr> Data = p \<rparr> = p" for p
    by (simp_all add: response_of_def)
  have s: "Aggregation sample_request = ''Average''"
    "ResourceProviderNamespace sample_request = ''Microsoft.Storage''"
    "MetricName sample_request = ''Length''"
    by (simp_all add: sample_request_def)
  show ?thesis
    using t [OF c r, of "''Count''" sample_request]
      t [OF c r, of "''cOUNT''" sample_request]
      t [OF c r, of "''Average''" sample_request]
      t [OF a r, of "''x''" "sample_request\<lparr>Aggregation := ''AVERAGE''\<rparr>"]
      t [OF a r, of "''x''" "sample_request\<lparr>Aggregation := ''average''\<rparr>"]
      t [OF a r, of "''x''" "sample_request\<lparr>Aggregation := ''Median''\<rparr>"]
    by (simp add: spec_select_samples s)
qed

subsection \<open>Responses that lack data\<close>

text \<open>
  What the three checks of \<open>extractValue\<close> catch: an outer sequence of length 0, and a
  time-series sequence or a data-point sequence that is the nil slice.
\<close>

lemma extractValue_explicit_errors:
  "extractValue req \<lparr> Value = Some (Slice []) \<rparr> =
     Returns (- 1, Some (Errorf ''Got an empty response for metric %s/%s and aggregate type %s''
                           [S (ResourceProviderNamespace req), S (MetricName req), Title (Aggregation req)]))"
  "extractValue req \<lparr> Value = Some NilSlice \<rparr> =
     Returns (- 1, Some (Errorf ''Got an empty response for metric %s/%s and aggregate type %s''
                           [S (ResourceProviderNamespace req), S (MetricName req), Title (Aggregation req)]))"
  "extractValue req \<lparr> Value = Some (Slice [\<lparr> Timeseries = Some NilSlice \<rparr>]) \<rparr> =
     Returns (- 1, Some (Errorf ''Got metric result for %s/%s and aggregate type %s without timeseries''
                           [S (ResourceProviderNamespace req), S (MetricName req), Title (Aggregation req)]))"
  "extractValue req (response_of (Some NilSlice)) =
     Returns (- 1, Some (Errorf ''Got metric result for %s/%s and aggregate type %s without any metric values''
                           [S (ResourceProviderNamespace req), S (MetricName req), Title (Aggregation req)]))"
  by (simp_all add: extractValue_def response_of_def go_bind_def deref_def len_def index_def)

text \<open>
  On an empty sequence that is not nil the chain indexes \<open>data[-1]\<close> as soon as the mode
  is one of the five; for any other mode no point is read at all.
\<close>

lemma verifyAggregationTypeIsSupported_empty:
  assumes "map ascii_lower mode \<in> set [''average'', ''total'', ''maximum'', ''minimum'', ''count'']"
  shows "verifyAggregationTypeIsSupported mode (Slice []) = Panics IndexOutOfRange"
  using assms
  by (auto simp: verifyAggregationTypeIsSupported_def and_then_def go_bind_def index_def len_def
      EqualFold_modes)

lemma verifyAggregationTypeIsSupported_other_mode:
  assumes "map ascii_lower mode \<notin> set [''average'', ''total'', ''maximum'', ''minimum'', ''count'']"
  shows "verifyAggregationTypeIsSupported mode data =
           Returns (None, Some (Errorf ''Unsupported aggregation type %s'' [Title mode]))"
  using assms
  by (auto simp: verifyAggregationTypeIsSupported_def and_then_def go_bind_def
      EqualFold_modes)

text \<open>
  Claim C1, where the code departs from it.  A sequence that is absent (a nil pointer)
  is dereferenced, and a time-series or data-point sequence that is empty without being
  the nil slice, which is what an empty JSON array decodes to, passes the comparison
  with nil and is then indexed: every such response makes \<open>extractValue\<close> panic
  instead of failing with NoTimeseries or NoDataPoints.  (For an empty data-point
  sequence the index is reached when the requested mode is one of the five.)
\<close>

theorem extractValue_panics_on_absent_or_empty:
  "(Value r = None \<longrightarrow> extractValue req r = Panics NilDereference)
   \<and> (Value r = Some (Slice (m0 # ms)) \<and> Timeseries m0 = None \<longrightarrow>
        extractValue req r = Panics NilDereference)
   \<and> (Value r = Some (Slice (m0 # ms)) \<and> Timeseries m0 = Some (Slice []) \<longrightarrow>
        extractValue req r = Panics IndexOutOfRange)
   \<and> (Value r = Some (Slice (m0 # ms)) \<and> Timeseries m0 = Some (Slice (t0 # ts))
        \<and> Data t0 = None \<longrightarrow>
        extractValue req r = Panics NilDereference)
   \<and> (Value r = Some (Slice (m0 # ms)) \<and> Timeseries m0 = Some (Slice (t0 # ts))
        \<and> Data t0 = Some (Slice [])
        \<and> map ascii_lower (Aggregation req)
            \<in> set [''average'', ''total'', ''maximum'', ''minimum'', ''count''] \<longrightarrow>
        extractValue req r = Panics IndexOutOfRange)"
proof (intro conjI impI)
  assume "Value r = None"
  then show "extractValue req r = Panics NilDereference"
    by (simp add: extractValue_def go_bind_def deref_def)
next
  assume "Value r = Some (Slice (m0 # ms)) \<and> Timeseries m0 = None"
  then show "extractValue req r = Panics NilDereference"
    by (simp add: extractValue_def go_bind_def deref_def len_def index_Slice_Cons0)
next
  assume "Value r = Some (Slice (m0 # ms)) \<and> Timeseries m0 = Some (Slice [])"
  then show "extractValue req r = Panics IndexOutOfRange"
    by (simp add: extractValue_def go_bind_def deref_def len_def index_Slice_Cons0
        index_out_of_range)
next
  assume "Value r = Some (Slice (m0 # ms)) \<and> Timeseries m0 = Some (Slice (t0 # ts))
        \<and> Data t0 = None"
  then show "extractValue req r = Panics NilDereference"
    by (simp add: extractValue_def go_bind_def deref_def len_def index_Slice_Cons0)
next
  assume a: "Value r = Some (Slice (m0 # ms)) \<and> Timeseries m0 = Some (Slice (t0 # ts))
        \<and> Data t0 = Some (Slice [])
        \<and> map ascii_lower (Aggregation req)
            \<in> set [''average'', ''total'', ''maximum'', ''minimum'', ''count'']"
  then have "verifyAggregationTypeIsSupported (Aggregation req) (Slice []) = Panics IndexOutOfRange"
    by (intro verifyAggregationTypeIsSupported_empty) simp
  with a show "extractValue req r = Panics IndexOutOfRange"
    by (simp add: extractValue_def go_bind_def deref_def len_def index_Slice_Cons0)
qed

theorem extractValue_panics_on_absent_or_empty_witness:
  "extractValue sample_request \<lparr> Value = Some (Slice [\<lparr> Timeseries = Some (Slice []) \<rparr>]) \<rparr>
     = Panics IndexOutOfRange
   \<and> extractValue sample_request (response_of (Some (Slice []))) = Panics IndexOutOfRange
   \<and> extractValue sample_request (response_of None) = Panics NilDereference
   \<and> extractValue sample_request \<lparr> Value = Some (Slice [\<lparr> Timeseries = None \<rparr>]) \<rparr>
       = Panics NilDereference
   \<and> extractValue sample_request \<lparr> Value = None \<rparr> = Panics NilDereference"
proof -
  note t = extractValue_panics_on_absent_or_empty
  have l: "map ascii_lower (Aggregation sample_request) = ''average''"
    unfolding sample_request_def by code_simp
  have "extractValue sample_request \<lparr> Value = Some (Slice [\<lparr> Timeseries = Some (Slice []) \<rparr>]) \<rparr>
          = Panics IndexOutOfRange"
    using t [of "\<lparr> Value = Some (Slice [\<lparr> Timeseries = Some (Slice []) \<rparr>]) \<rparr>"
        sample_request "\<lparr> Timeseries = Some (Slice []) \<rparr>" "[]",
        THEN conjunct2, THEN conjunct2, THEN conjunct1]
    by simp
  moreover have "extractValue sample_request (response_of (Some (Slice []))) = Panics IndexOutOfRange"
    using t [of "response_of (Some (Slice []))" sample_request
        "\<lparr> Timeseries = Some (Slice [\<lparr> Data = Some (Slice []) \<rparr>]) \<rparr>" "[]"
        "\<lparr> Data = Some (Slice []) \<rparr>" "[]",
        THEN conjunct2, THEN conjunct2, THEN conjunct2, THEN conjunct2]
    by (simp add: response_of_def l)
  moreover have "extractValue sample_request (response_of None) = Panics NilDereference"
    using t [of "response_of None" sample_request
        "\<lparr> Timeseries = Some (Slice [\<lparr> Data = None \<rparr>]) \<rparr>" "[]"
        "\<lparr> Data = None \<rparr>" "[]",
        THEN conjunct2, THEN conjunct2, THEN conjunct2, THEN conjunct1]
    by (simp add: response_of_def)
  moreover have "extractValue sample_request \<lparr> Value = Some (Slice [\<lparr> Timeseries = None \<rparr>]) \<rparr>
          = Panics NilDereference"
    using t [of "\<lparr> Value = Some (Slice [\<lparr> Timeseries = None \<rparr>]) \<rparr>"
        sample_request "\<lparr> Timeseries = None \<rparr>" "[]",
        THEN conjunct2, THEN conjunct1]
    by simp
  moreover have "extractValue sample_request \<lparr> Value = None \<rparr> = Panics NilDereference"
    using t [of "\<lparr> Value = None \<rparr>" sample_request, THEN conjunct1]
    by simp
  ultimately show ?thesis by (intro conjI)
qed

subsection \<open>From the request to the signal\<close>

lemma executeRequest_success:
  assumes "getAzureMetric client req calls = (Returns (v, None), calls')"
  shows "executeRequest unrep client (Some req) calls =
           (Returns (int32_of_float64 unrep (math_Round v), None), calls')"
  using assms by (simp add: executeRequest_def deref_def)

lemma executeRequest_failure:
  assumes "getAzureMetric client req calls = (Returns (v, Some err), calls')"
  shows "executeRequest unrep client (Some req) calls =
           (Returns (- 1, Some (Errorf ''Error getting azure monitor metric %s: %s''
                                   [S (MetricName req), ErrorText err])), calls')"
  using assms by (simp add: executeRequest_def deref_def)

lemma response_of_fields:
  "Value (response_of p) = Some (Slice (\<lparr> Timeseries = Some (Slice [\<lparr> Data = p \<rparr>]) \<rparr> # []))"
  "Timeseries \<lparr> Timeseries = Some (Slice [\<lparr> Data = p \<rparr>]) \<rparr> = Some (Slice (\<lparr> Data = p \<rparr> # []))"
  "Data \<lparr> Data = p \<rparr> = p"
  by (simp_all add: response_of_def)

lemma getAzureMetric_sample:
  "getAzureMetric (sample_client v metadata) sample_request calls
     = (Returns (v, None), calls @ [sample_call])"
proof -
  have "map ascii_lower ''Average'' = ''average''" by code_simp
  then have s: "spec_select ''Average'' (average_point v) = Some v"
    by (simp add: spec_select_def average_point_def)
  have "[average_point 1, average_point v] \<noteq> []" by simp
  from extractValue_last [OF response_of_fields this, of sample_request]
  have "extractValue sample_request (response_of (Some (Slice [average_point 1, average_point v])))
          = Returns (v, None)"
    by (simp add: s sample_request_def)
  then show ?thesis
    by (simp add: getAzureMetric_def validate_def sample_client_def sample_call_def
        metricResourceURI_def sample_request_def)
qed

lemma createMetricsRequest_sample:
  "createMetricsRequest sample_clock sample_metadata = Returns (Some sample_request, None)"
proof -
  have "resourceURI sample_metadata = ''Microsoft.Storage'' @ ''/'' @ ''queueServices'' @ ''/'' @ ''q1''"
    by (simp add: sample_metadata_def)
  from createMetricsRequest_three_segments [OF _ _ _ this, of sample_clock]
  show ?thesis
    by (simp add: sample_metadata_def sample_request_def formatTimeSpan_empty go_bind_def
        format_sample_end format_sample_default_start)
qed

lemma getAzureMetric_failing_client:
  "getAzureMetric (failing_client metadata) sample_request calls
     = (Returns (- 1, Some (Errorf ''connection refused'' [])), calls @ [sample_call])"
  by (simp add: getAzureMetric_def validate_def failing_client_def sample_call_def
      metricResourceURI_def sample_request_def)

subsection \<open>The client is reached only by a valid request\<close>

text \<open>A request that passes validation makes exactly one call, with these arguments.\<close>

lemma getAzureMetric_calls_once:
  assumes "validate req = None"
  shows "snd (getAzureMetric client req calls) =
           calls @ [\<lparr> list_resourceURI = metricResourceURI req,
                       list_timespan = Timespan req,
                       list_interval = None,
                       list_metricnames = MetricName req,
                       list_aggregation = Aggregation req,
                       list_top = None,
                       list_orderby = [],
                       list_filter = Filter req,
                       list_resultType = [],
                       list_metricnamespace = [] \<rparr>]"
  using assms by (simp add: getAzureMetric_def Let_def split: prod.splits)

text \<open>
  Claim C8.  For every request with metricName, resourceGroup or subscriptionID empty,
  \<open>getAzureMetric\<close> returns the error of \<open>validate\<close> and the list of calls made to the
  client is the one it was given: the client has not been invoked.  The same holds of
  \<open>executeRequest\<close> and of \<open>GetAzureMetricValue\<close>, which return the error wrapped.
\<close>

theorem validation_precedes_client_call:
  assumes "MetricName req = [] \<or> ResourceGroup req = [] \<or> SubscriptionID req = []"
  shows "\<exists>err. validate req = Some err
           \<and> getAzureMetric client req calls = (Returns (- 1, Some err), calls)
           \<and> executeRequest unrep client (Some req) calls =
               (Returns (- 1, Some (Errorf ''Error getting azure monitor metric %s: %s''
                                       [S (MetricName req), ErrorText err])), calls)
           \<and> (createMetricsRequest now metadata = Returns (Some req, None) \<longrightarrow>
                GetAzureMetricValue unrep createMetricsClient now metadata calls =
                  (Returns (- 1, Some (Errorf ''Error getting azure monitor metric %s: %s''
                                          [S (MetricName req), ErrorText err])), calls))"
proof -
  from assms obtain err where v: "validate req = Some err"
    using validate_Some_iff by blast
  then have g: "getAzureMetric c req calls = (Returns (- 1, Some err), calls)" for c
    by (simp add: getAzureMetric_def)
  have e: "executeRequest unrep c (Some req) calls =
               (Returns (- 1, Some (Errorf ''Error getting azure monitor metric %s: %s''
                                       [S (MetricName req), ErrorText err])), calls)" for c
    using g [of c] by (rule executeRequest_failure)
  have "createMetricsRequest now metadata = Returns (Some req, None) \<longrightarrow>
          GetAzureMetricValue unrep createMetricsClient now metadata calls =
            (Returns (- 1, Some (Errorf ''Error getting azure monitor metric %s: %s''
                                    [S (MetricName req), ErrorText err])), calls)"
    using e [of "createMetricsClient metadata"] by (simp add: GetAzureMetricValue_def)
  with v g [of client] e [of client] show ?thesis
    by (intro exI [of _ err] conjI)
qed

theorem validation_precedes_client_call_witness:
  "getAzureMetric (sample_client (126 / 10) sample_metadata) (sample_request\<lparr>SubscriptionID := []\<rparr>) []
     = (Returns (- 1, Some (Errorf ''subscriptionID is required. set a default or pass via label selectors'' [])),
        [])
   \<and> GetAzureMetricValue (\<lambda>f. 0) (sample_client (126 / 10)) sample_clock
        (sample_metadata\<lparr>subscriptionID := []\<rparr>) []
     = (Returns (- 1, Some (Errorf ''Error getting azure monitor metric %s: %s''
          [S ''Length'',
           ErrorText (Errorf ''subscriptionID is required. set a default or pass via label selectors'' [])])),
        [])"
proof -
  let ?req = "sample_request\<lparr>SubscriptionID := []\<rparr>"
  let ?md = "sample_metadata\<lparr>subscriptionID := []\<rparr>"
  have v: "validate ?req
             = Some (Errorf ''subscriptionID is required. set a default or pass via label selectors'' [])"
    by (simp add: validate_def sample_request_def)
  have n: "MetricName ?req = ''Length''"
    by (simp add: sample_request_def)
  have "resourceURI ?md = ''Microsoft.Storage'' @ ''/'' @ ''queueServices'' @ ''/'' @ ''q1''"
    by (simp add: sample_metadata_def)
  from createMetricsRequest_three_segments [OF _ _ _ this, of sample_clock]
  have c: "createMetricsRequest sample_clock ?md = Returns (Some ?req, None)"
    by (simp add: sample_metadata_def sample_request_def formatTimeSpan_empty go_bind_def
        format_sample_end format_sample_default_start)
  have "MetricName ?req = [] \<or> ResourceGroup ?req = [] \<or> SubscriptionID ?req = []"
    by simp
  from validation_precedes_client_call
    [OF this, of "sample_client (126 / 10) sample_metadata" "[]" "\<lambda>f. 0" sample_clock ?md
      "sample_client (126 / 10)"]
  show ?thesis
    unfolding v n using c by auto
qed

subsection \<open>Rounding and narrowing\<close>

lemma math_Round_nearest:
  "\<exists>n. math_Round x = of_int n \<and> \<bar>of_int n - x\<bar> \<le> 1 / 2
       \<and> (\<bar>of_int n - x\<bar> = 1 / 2 \<longrightarrow> \<bar>x\<bar> < \<bar>of_int n\<bar>)"
proof (cases "x < 0")
  case True
  define f where "f = \<lfloor>- x + 1 / 2\<rfloor>"
  have 1: "of_int f \<le> - x + 1 / 2" and 2: "- x + 1 / 2 < of_int f + 1"
    unfolding f_def by linarith+
  have "\<bar>of_int (- f) - x\<bar> \<le> 1 / 2"
    unfolding of_int_minus using 1 2 by linarith
  moreover have "\<bar>of_int (- f) - x\<bar> = 1 / 2 \<longrightarrow> \<bar>x\<bar> < \<bar>of_int (- f)\<bar>"
    unfolding of_int_minus using 1 2 True by linarith
  moreover have "math_Round x = of_int (- f)"
    using True by (simp add: math_Round_def f_def)
  ultimately show ?thesis by blast
next
  case False
  define f where "f = \<lfloor>x + 1 / 2\<rfloor>"
  have 1: "of_int f \<le> x + 1 / 2" and 2: "x + 1 / 2 < of_int f + 1"
    unfolding f_def by linarith+
  have "\<bar>of_int f - x\<bar> \<le> 1 / 2"
    using 1 2 by linarith
  moreover have "\<bar>of_int f - x\<bar> = 1 / 2 \<longrightarrow> \<bar>x\<bar> < \<bar>of_int f\<bar>"
    using 1 2 False by linarith
  moreover have "math_Round x = of_int f"
    using False by (simp add: math_Round_def f_def)
  ultimately show ?thesis by blast
qed

lemma int32_of_float64_of_int:
  assumes "- (2 ^ 31) \<le> n" and "n < 2 ^ 31"
  shows "int32_of_float64 unrep (of_int n) = word_of_int n"
    and "sint (int32_of_float64 unrep (of_int n)) = n"
proof -
  show e: "int32_of_float64 unrep (of_int n) = word_of_int n"
    using assms by (simp add: int32_of_float64_def)
  show "sint (int32_of_float64 unrep (of_int n)) = n"
    unfolding e using assms by (simp add: sint_sbintrunc' signed_take_bit_int_eq_self)
qed

text \<open>
  Claim C4.  When \<open>getAzureMetric\<close> yields the value \<open>v\<close>, the signal is the narrowing to
  32 bits of an integer \<open>n\<close> that is nearest to \<open>v\<close> and, when \<open>v\<close> lies halfway between two
  integers, is the one farther from zero; when \<open>n\<close> fits 32 bits the signal read as a
  signed number is \<open>n\<close> itself.
\<close>

theorem signal_rounds_half_away_from_zero:
  assumes "getAzureMetric client req calls = (Returns (v, None), calls')"
  shows "\<exists>n. executeRequest unrep client (Some req) calls =
               (Returns (int32_of_float64 unrep (of_int n), None), calls')
           \<and> \<bar>of_int n - v\<bar> \<le> 1 / 2
           \<and> (\<bar>of_int n - v\<bar> = 1 / 2 \<longrightarrow> \<bar>v\<bar> < \<bar>of_int n\<bar>)
           \<and> (- (2 ^ 31) \<le> n \<and> n < 2 ^ 31 \<longrightarrow> sint (int32_of_float64 unrep (of_int n)) = n)"
proof -
  obtain n where n: "math_Round v = of_int n" "\<bar>of_int n - v\<bar> \<le> 1 / 2"
    "\<bar>of_int n - v\<bar> = 1 / 2 \<longrightarrow> \<bar>v\<bar> < \<bar>of_int n\<bar>"
    using math_Round_nearest by blast
  have "executeRequest unrep client (Some req) calls =
          (Returns (int32_of_float64 unrep (of_int n), None), calls')"
    using executeRequest_success [OF assms] n(1) by simp
  with n(2,3) int32_of_float64_of_int(2) [of n unrep] show ?thesis by blast
qed

theorem signal_rounds_half_away_from_zero_witness:
  "executeRequest (\<lambda>f. 0) (sample_client (44 / 10) sample_metadata) (Some sample_request) []
     = (Returns (4, None), [sample_call])
   \<and> executeRequest (\<lambda>f. 0) (sample_client (45 / 10) sample_metadata) (Some sample_request) []
     = (Returns (5, None), [sample_call])
   \<and> executeRequest (\<lambda>f. 0) (sample_client (- (45 / 10)) sample_metadata) (Some sample_request) []
     = (Returns (- 5, None), [sample_call])
   \<and> executeRequest (\<lambda>f. 0) (sample_client (- (44 / 10)) sample_metadata) (Some sample_request) []
     = (Returns (- 4, None), [sample_call])"
proof -
  have pick: "int32_of_float64 (\<lambda>f. 0) (of_int n) = word_of_int k" if "n = k" "- (2 ^ 31) \<le> k" "k < 2 ^ 31"
    for n k :: int
    using that int32_of_float64_of_int(1) [of k "\<lambda>f. 0"] by simp
  have a: "executeRequest (\<lambda>f. 0) (sample_client (44 / 10) sample_metadata) (Some sample_request) []
             = (Returns (4, None), [sample_call])"
  proof -
    from signal_rounds_half_away_from_zero
        [OF getAzureMetric_sample [of "44 / 10" sample_metadata "[]"], of "\<lambda>f. 0"] obtain n where n:
      "executeRequest (\<lambda>f. 0) (sample_client (44 / 10) sample_metadata) (Some sample_request) []
         = (Returns (int32_of_float64 (\<lambda>f. 0) (of_int n), None), [] @ [sample_call])"
      "\<bar>real_of_int n - 44 / 10\<bar> \<le> 1 / 2"
      by blast
    from n(2) have "n = 4" by linarith
    with n(1) pick [of n 4] show ?thesis by simp
  qed
  have b: "executeRequest (\<lambda>f. 0) (sample_client (45 / 10) sample_metadata) (Some sample_request) []
             = (Returns (5, None), [sample_call])"
  proof -
    from signal_rounds_half_away_from_zero
        [OF getAzureMetric_sample [of "45 / 10" sample_metadata "[]"], of "\<lambda>f. 0"] obtain n where n:
      "executeRequest (\<lambda>f. 0) (sample_client (45 / 10) sample_metadata) (Some sample_request) []
         = (Returns (int32_of_float64 (\<lambda>f. 0) (of_int n), None), [] @ [sample_call])"
      "\<bar>real_of_int n - 45 / 10\<bar> \<le> 1 / 2"
      "\<bar>real_of_int n - 45 / 10\<bar> = 1 / 2 \<longrightarrow> \<bar>45 / 10 :: real\<bar> < \<bar>real_of_int n\<bar>"
      by blast
    from n(2) have "n = 4 \<or> n = 5" by linarith
    with n(3) have "n = 5" by auto
    with n(1) pick [of n 5] show ?thesis by simp
  qed
  have c: "executeRequest (\<lambda>f. 0) (sample_client (- (45 / 10)) sample_metadata) (Some sample_request) []
             = (Returns (- 5, None), [sample_call])"
  proof -
    from signal_rounds_half_away_from_zero
        [OF getAzureMetric_sample [of "- (45 / 10)" sample_metadata "[]"], of "\<lambda>f. 0"] obtain n where n:
      "executeRequest (\<lambda>f. 0) (sample_client (- (45 / 10)) sample_metadata) (Some sample_request) []
         = (Returns (int32_of_float64 (\<lambda>f. 0) (of_int n), None), [] @ [sample_call])"
      "\<bar>real_of_int n - (- (45 / 10))\<bar> \<le> 1 / 2"
      "\<bar>real_of_int n - (- (45 / 10))\<bar> = 1 / 2 \<longrightarrow> \<bar>- (45 / 10) :: real\<bar> < \<bar>real_of_int n\<bar>"
      by blast
    from n(2) have "n = - 4 \<or> n = - 5" by linarith
    with n(3) have "n = - 5" by auto
    with n(1) pick [of n "- 5"] show ?thesis by simp
  qed
  have d: "executeRequest (\<lambda>f. 0) (sample_client (- (44 / 10)) sample_metadata) (Some sample_request) []
             = (Returns (- 4, None), [sample_call])"
  proof -
    from signal_rounds_half_away_from_zero
        [OF getAzureMetric_sample [of "- (44 / 10)" sample_metadata "[]"], of "\<lambda>f. 0"] obtain n where n:
      "executeRequest (\<lambda>f. 0) (sample_client (- (44 / 10)) sample_metadata) (Some sample_request) []
         = (Returns (int32_of_float64 (\<lambda>f. 0) (of_int n), None), [] @ [sample_call])"
      "\<bar>real_of_int n - (- (44 / 10))\<bar> \<le> 1 / 2"
      by blast
    from n(2) have "n = - 4" by linarith
    with n(1) pick [of n "- 4"] show ?thesis by simp
  qed
  from a b c d show ?thesis by blast
qed

text \<open>
  The end-to-end example of the spec (section 8): the configuration of the example and a
  response whose most recent point has the average 12.6 give the signal 13, after one
  call to the client for the last five minutes.
\<close>

lemma end_to_end_example:
  "GetAzureMetricValue unrep (sample_client (126 / 10)) sample_clock sample_metadata []
     = (Returns (13, None), [sample_call])"
proof -
  have "math_Round (126 / 10) = of_int 13"
    by (simp add: math_Round_def)
  then have "int32_of_float64 unrep (math_Round (126 / 10)) = 13"
    using int32_of_float64_of_int(1) [of 13 unrep] by simp
  then show ?thesis
    using executeRequest_success [OF getAzureMetric_sample [of "126 / 10" sample_metadata "[]"], of unrep]
    by (simp add: GetAzureMetricValue_def createMetricsRequest_sample)
qed

subsection \<open>The value that accompanies an error\<close>

lemma createMetricsRequest_bad_interval:
  "createMetricsRequest sample_clock (sample_metadata\<lparr>aggregationInterval := ''x:0:0''\<rparr>)
     = Returns (None, Some (Errorf ''Errors parsing metricAggregationInterval: %v, %v, %v''
                              [V (Some (NumError ''Atoi'' ''x'' ErrSyntax)), V None, V None]))"
proof -
  let ?md = "sample_metadata\<lparr>aggregationInterval := ''x:0:0''\<rparr>"
  have "strings_Split ''x:0:0'' CHR '':'' = ''x'' # ''0'' # ''0'' # []"
    by (simp add: strings_Split_def)
  then have f: "formatTimeSpan sample_clock ''x:0:0''
          = Returns ([], Some (Errorf ''Errors parsing metricAggregationInterval: %v, %v, %v''
                                 [V (Some (NumError ''Atoi'' ''x'' ErrSyntax)), V None, V None]))"
    by (simp add: formatTimeSpan_components Atoi_samples)
  have "resourceURI ?md = ''Microsoft.Storage'' @ ''/'' @ ''queueServices'' @ ''/'' @ ''q1''"
    by (simp add: sample_metadata_def)
  from createMetricsRequest_three_segments [OF _ _ _ this, of sample_clock]
  show ?thesis
    by (simp add: sample_metadata_def f go_bind_def)
qed

lemma executeRequest_error_value:
  assumes "executeRequest unrep client r calls = (Returns (v, Some e), calls')"
  shows "v = - 1"
proof (cases r)
  case None
  with assms show ?thesis by (simp add: executeRequest_def deref_def)
next
  case (Some req)
  obtain out c where g: "getAzureMetric client req calls = (out, c)"
    by (cases "getAzureMetric client req calls")
  show ?thesis
  proof (cases out)
    case (Panics p)
    with assms Some g show ?thesis by (simp add: executeRequest_def deref_def)
  next
    case (Returns res)
    obtain x err where "res = (x, err)" by (cases res)
    with assms Some g Returns show ?thesis
      by (cases err) (simp_all add: executeRequest_def deref_def)
  qed
qed

lemma GetAzureMetricValue_error_value:
  assumes "GetAzureMetricValue unrep createMetricsClient now metadata calls
             = (Returns (v, Some e), calls')"
  shows "v = - 1"
proof (cases "createMetricsRequest now metadata")
  case (Panics p)
  with assms show ?thesis by (simp add: GetAzureMetricValue_def)
next
  case (Returns res)
  obtain r err where res: "res = (r, err)" by (cases res)
  show ?thesis
  proof (cases err)
    case None
    with assms Returns res
    have "executeRequest unrep (createMetricsClient metadata) r calls = (Returns (v, Some e), calls')"
      by (simp add: GetAzureMetricValue_def)
    then show ?thesis by (rule executeRequest_error_value)
  next
    case (Some a)
    with assms Returns res show ?thesis by (simp add: GetAzureMetricValue_def)
  qed
qed

text \<open>
  Claim C9.  An error out of the construction of the request comes back from
  \<open>GetAzureMetricValue\<close> with the value -1, and so does, wrapped, an error out of
  \<open>getAzureMetric\<close>, which is where validation, the query and the extraction fail; no
  error is ever returned with another value.  The last conjunct is a successful reading
  of the metric value -1: its value component is the same -1.
\<close>

theorem failure_returns_minus_one:
  "(createMetricsRequest now metadata = Returns (r, Some err) \<longrightarrow>
      GetAzureMetricValue unrep createMetricsClient now metadata calls
        = (Returns (- 1, Some err), calls))
   \<and> (createMetricsRequest now metadata = Returns (Some req, None)
        \<and> getAzureMetric (createMetricsClient metadata) req calls = (Returns (x, Some err'), calls') \<longrightarrow>
      GetAzureMetricValue unrep createMetricsClient now metadata calls
        = (Returns (- 1, Some (Errorf ''Error getting azure monitor metric %s: %s''
                                 [S (MetricName req), ErrorText err'])), calls'))
   \<and> (GetAzureMetricValue unrep createMetricsClient now metadata calls
         = (Returns (v, Some e), calls'') \<longrightarrow> v = - 1)
   \<and> GetAzureMetricValue unrep (sample_client (- 1)) sample_clock sample_metadata []
       = (Returns (- 1, None), [sample_call])"
proof -
  have 1: "createMetricsRequest now metadata = Returns (r, Some err) \<longrightarrow>
      GetAzureMetricValue unrep createMetricsClient now metadata calls
        = (Returns (- 1, Some err), calls)"
    by (simp add: GetAzureMetricValue_def)
  have 2: "createMetricsRequest now metadata = Returns (Some req, None)
        \<and> getAzureMetric (createMetricsClient metadata) req calls = (Returns (x, Some err'), calls') \<longrightarrow>
      GetAzureMetricValue unrep createMetricsClient now metadata calls
        = (Returns (- 1, Some (Errorf ''Error getting azure monitor metric %s: %s''
                                 [S (MetricName req), ErrorText err'])), calls')"
    by (simp add: GetAzureMetricValue_def executeRequest_failure)
  have 3: "GetAzureMetricValue unrep createMetricsClient now metadata calls
         = (Returns (v, Some e), calls'') \<longrightarrow> v = - 1"
    using GetAzureMetricValue_error_value by blast
  have "math_Round (- 1) = of_int (- 1)"
    by (simp add: math_Round_def)
  then have "int32_of_float64 unrep (math_Round (- 1)) = - 1"
    using int32_of_float64_of_int(1) [of "- 1" unrep] by simp
  then have 4: "GetAzureMetricValue unrep (sample_client (- 1)) sample_clock sample_metadata []
               = (Returns (- 1, None), [sample_call])"
    using executeRequest_success [OF getAzureMetric_sample [of "- 1" sample_metadata "[]"], of unrep]
    by (simp add: GetAzureMetricValue_def createMetricsRequest_sample)
  from 1 2 3 4 show ?thesis by (intro conjI)
qed

theorem failure_returns_minus_one_witness:
  "GetAzureMetricValue (\<lambda>f. 0) failing_client sample_clock
     (sample_metadata\<lparr>aggregationInterval := ''x:0:0''\<rparr>) []
     = (Returns (- 1, Some (Errorf ''Errors parsing metricAggregationInterval: %v, %v, %v''
                              [V (Some (NumError ''Atoi'' ''x'' ErrSyntax)), V None, V None])),
        [])
   \<and> GetAzureMetricValue (\<lambda>f. 0) failing_client sample_clock sample_metadata []
     = (Returns (- 1, Some (Errorf ''Error getting azure monitor metric %s: %s''
                              [S ''Length'', ErrorText (Errorf ''connection refused'' [])])),
        [sample_call])
   \<and> GetAzureMetricValue (\<lambda>f. 0) (sample_client (- 1)) sample_clock sample_metadata []
     = (Returns (- 1, None), [sample_call])"
proof -
  note t = failure_returns_minus_one
    [of sample_clock sample_metadata None "Errorf [] []" "\<lambda>f. 0" failing_client "[]"
      sample_request "- 1" "Errorf ''connection refused'' []" "[sample_call]" 0 "Errorf [] []" "[]"]
  have n: "MetricName sample_request = ''Length''"
    by (simp add: sample_request_def)
  have "createMetricsRequest sample_clock sample_metadata = Returns (Some sample_request, None)
        \<and> getAzureMetric (failing_client sample_metadata) sample_request []
            = (Returns (- 1, Some (Errorf ''connection refused'' [])), [sample_call])"
    using createMetricsRequest_sample getAzureMetric_failing_client [of sample_metadata "[]"]
    by simp
  with t [THEN conjunct2, THEN conjunct1]
  have "GetAzureMetricValue (\<lambda>f. 0) failing_client sample_clock sample_metadata []
     = (Returns (- 1, Some (Errorf ''Error getting azure monitor metric %s: %s''
                              [S (MetricName sample_request), ErrorText (Errorf ''connection refused'' [])])),
        [sample_call])"
    by (rule mp)
  moreover
  from failure_returns_minus_one
    [of sample_clock "sample_metadata\<lparr>aggregationInterval := ''x:0:0''\<rparr>" None
      "Errorf ''Errors parsing metricAggregationInterval: %v, %v, %v''
         [V (Some (NumError ''Atoi'' ''x'' ErrSyntax)), V None, V None]"
      "\<lambda>f. 0" failing_client "[]", THEN conjunct1]
  have "GetAzureMetricValue (\<lambda>f. 0) failing_client sample_clock
     (sample_metadata\<lparr>aggregationInterval := ''x:0:0''\<rparr>) []
     = (Returns (- 1, Some (Errorf ''Errors parsing metricAggregationInterval: %v, %v, %v''
                              [V (Some (NumError ''Atoi'' ''x'' ErrSyntax)), V None, V None])),
        [])"
    using createMetricsRequest_bad_interval by (rule mp)
  moreover note t [THEN conjunct2, THEN conjunct2, THEN conjunct2]
  ultimately show ?thesis
    unfolding n by (intro conjI)
qed

end
